theory Spec2Isabelle
  imports Main "HOL-Library.Multiset" "HOL-Library.AList" "HOL-Library.Sublist"
begin

section \<open>The symbol model of \<^verbatim>\<open>check_symbol.go\<close>\<close>

text \<open>
  \<^verbatim>\<open>Symbol\<close> and \<^verbatim>\<open>FuncSpec\<close> are the two structs of the program. A \<^verbatim>\<open>SymbolList\<close> is a
  slice of symbols; the pointer field \<^verbatim>\<open>FuncSpec *FuncSpec\<close> is an option, \<open>None\<close> being
  the nil pointer. \<^verbatim>\<open>token.Pos\<close> is an integer offset; the comparison never computes with it.
\<close>

datatype Symbol = Symbol (Label: string) (SymbolType: string) (UnderlyingType: string)
    (ReceiverType: string) (FileName: string) (Pos: int) (Members: "Symbol list")
    (FuncSpec: "FuncSpec option")
  and FuncSpec = FuncSpec_of (Params: "Symbol list") (Returns: "Symbol list")

text \<open>
  The run-time panics the program can raise: a nil pointer dereference, the explicit
  \<^verbatim>\<open>panic("unknown type")\<close> of \<^verbatim>\<open>formatType\<close>, a failed type assertion \<^verbatim>\<open>x.(*T)\<close>, and an
  index out of range.
\<close>

datatype error = NilDereference | UnknownType | TypeAssertion | IndexOutOfRange

subsection \<open>Runs\<close>

text \<open>
  \<^verbatim>\<open>compareSymbolList\<close> ends with a \<^verbatim>\<open>range\<close> loop over a Go map, whose iteration order the
  language leaves unspecified and which may change from one loop to the next. A call
  therefore has several possible runs. The model returns the list of the outcomes of all
  runs: each outcome is a panic (\<open>Inl\<close>) or a returned value (\<open>Inr\<close>).
\<close>

type_synonym 'a runs = "(error + 'a) list"

definition returns :: "'a \<Rightarrow> 'a runs" where
  "returns x = [Inr x]"

definition panics :: "error \<Rightarrow> 'a runs" where
  "panics e = [Inl e]"

text \<open>Sequencing: a panic ends the run, a value is handed to the rest of the code.\<close>

definition and_then :: "'a runs \<Rightarrow> ('a \<Rightarrow> 'b runs) \<Rightarrow> 'b runs" where
  "and_then m f = concat (map (\<lambda>r. case r of Inl e \<Rightarrow> [Inl e] | Inr x \<Rightarrow> f x) m)"

text \<open>All orders in which a \<^verbatim>\<open>range\<close> loop may visit the entries of a map.\<close>

fun insert_everywhere :: "'a \<Rightarrow> 'a list \<Rightarrow> 'a list list" where
  "insert_everywhere x [] = [[x]]"
| "insert_everywhere x (y # ys) = (x # y # ys) # map ((#) y) (insert_everywhere x ys)"

fun iteration_orders :: "'a list \<Rightarrow> 'a list list" where
  "iteration_orders [] = [[]]"
| "iteration_orders (x # xs) = concat (map (insert_everywhere x) (iteration_orders xs))"

subsection \<open>Formatting\<close>

text \<open>The verb \<^verbatim>\<open>%d\<close> of \<^verbatim>\<open>fmt.Sprintf\<close>: a signed decimal numeral.\<close>

fun showNat :: "nat \<Rightarrow> string" where
  "showNat n = (if n < 10 then [char_of (48 + n)]
                else showNat (n div 10) @ [char_of (48 + n mod 10)])"

definition showInt :: "int \<Rightarrow> string" where
  "showInt i = (if i < 0 then ''-'' @ showNat (nat (- i)) else showNat (nat i))"

text \<open>\<^verbatim>\<open>func (c Symbol) Ident() string\<close>\<close>

definition Ident :: "Symbol \<Rightarrow> string" where
  "Ident c = ReceiverType c @ ''.'' @ Label c"

text \<open>\<^verbatim>\<open>func (c Symbol) String() string\<close>, which \<^verbatim>\<open>%s\<close> calls on a symbol.\<close>

definition String :: "Symbol \<Rightarrow> string" where
  "String c = (let res = Ident c in
     if FileName c \<noteq> '''' \<and> Pos c \<noteq> 0
     then res @ '' ('' @ FileName c @ '':offset '' @ showInt (Pos c) @ '')''
     else res)"

section \<open>The comparator\<close>

text \<open>
  The lookup \<^verbatim>\<open>agg := make(map[string]*Symbol)\<close> is an association list with distinct
  keys. A key bound to \<open>None\<close> is a key bound to the nil pointer: it is still present in the
  map, so the comma-ok lookup \<^verbatim>\<open>origSymbol, ok := agg[k]\<close> answers \<^verbatim>\<open>ok = true\<close> for it.
\<close>

type_synonym agg_map = "(string \<times> Symbol option) list"

text \<open>The first loop of \<^verbatim>\<open>compareSymbolList\<close>: \<^verbatim>\<open>agg[symbol.Ident()] = &sym\<close>.\<close>

fun sourceLoop :: "agg_map \<Rightarrow> Symbol list \<Rightarrow> agg_map" where
  "sourceLoop agg [] = agg"
| "sourceLoop agg (symbol # rest) =
     sourceLoop (AList.update (Ident symbol) (Some symbol) agg) rest"

text \<open>
  The last loop of \<^verbatim>\<open>compareSymbolList\<close>, for one order of visiting the entries of
  \<^verbatim>\<open>agg\<close>: every entry that is not nil appends a diagnostic.
\<close>

fun missingLoop :: "string list \<Rightarrow> (string \<times> Symbol option) list \<Rightarrow> string list" where
  "missingLoop diffs [] = diffs"
| "missingLoop diffs ((k, symbol) # rest) =
     (case symbol of
        Some orig \<Rightarrow> missingLoop (diffs @ [''missing symbol: '' @ String orig]) rest
      | None \<Rightarrow> missingLoop diffs rest)"

lemma and_then_cong [fundef_cong]:
  "m = m' \<Longrightarrow> (\<And>x. Inr x \<in> set m' \<Longrightarrow> f x = f' x) \<Longrightarrow> and_then m f = and_then m' f'"
  unfolding and_then_def by (auto intro!: arg_cong [where f = concat] split: sum.splits)

lemma size_Members2: "Suc (2 * size_list size (Members b)) < 2 * size b"
  by (cases b) simp

lemma size_FuncSpec2: "FuncSpec b = Some fb \<Longrightarrow> Suc (Suc (2 * size fb)) < 2 * size b"
  by (cases b) simp

lemma size_Params2: "2 * size_list size (Params fb) < Suc (2 * size fb)"
  by (cases fb) simp

lemma size_Returns2: "2 * size_list size (Returns fb) < Suc (2 * size fb)"
  by (cases fb) simp

text \<open>
  \<^verbatim>\<open>compareSymbolList\<close>, \<^verbatim>\<open>compareSymbol\<close> and \<^verbatim>\<open>compareFuncSpec\<close>. \<open>targetLoop\<close> is the second
  loop of \<^verbatim>\<open>compareSymbolList\<close>, over \<^verbatim>\<open>target\<close>, with the state \<^verbatim>\<open>agg\<close> and \<^verbatim>\<open>diffs\<close>
  it updates. In \<open>targetLoop\<close> the dereference \<^verbatim>\<open>*origSymbol\<close> panics when the key is bound to
  nil; in \<open>compareSymbol\<close> the dereferences \<^verbatim>\<open>*a.FuncSpec\<close> and \<^verbatim>\<open>*b.FuncSpec\<close> panic on a nil
  pointer.
\<close>

function compareSymbolList :: "Symbol list \<Rightarrow> Symbol list \<Rightarrow> bool \<Rightarrow> string list runs"
  and targetLoop ::
    "agg_map \<Rightarrow> string list \<Rightarrow> Symbol list \<Rightarrow> bool \<Rightarrow> (agg_map \<times> string list) runs"
  and compareSymbol :: "Symbol \<Rightarrow> Symbol \<Rightarrow> bool \<Rightarrow> string list runs"
  and compareFuncSpec :: "FuncSpec \<Rightarrow> FuncSpec \<Rightarrow> string list runs"
where
  "compareSymbolList source target cmpLabel =
     and_then (targetLoop (sourceLoop [] source) [] target cmpLabel) (\<lambda>(agg, diffs).
       map (\<lambda>order. Inr (missingLoop diffs order)) (iteration_orders agg))"
| "targetLoop agg diffs [] cmpLabel = returns (agg, diffs)"
| "targetLoop agg diffs (symbol # rest) cmpLabel =
     (case map_of agg (Ident symbol) of
        Some origSymbol \<Rightarrow>
          (case origSymbol of
             None \<Rightarrow> panics NilDereference
           | Some orig \<Rightarrow>
               and_then (compareSymbol orig symbol cmpLabel) (\<lambda>ds.
                 targetLoop (AList.update (Ident symbol) None agg) (diffs @ ds) rest cmpLabel))
      | None \<Rightarrow>
          targetLoop agg (diffs @ [''extra symbol found: '' @ String symbol]) rest cmpLabel)"
| "compareSymbol a b cmpLabel =
     (let diffs = [];
          diffs = (if SymbolType a \<noteq> SymbolType b
             then diffs @ [String a @ '' and '' @ String b @ '' have different symbol types: ''
                           @ SymbolType a @ '' and '' @ SymbolType b]
             else diffs);
          diffs = (if cmpLabel \<and> Label a \<noteq> Label b
             then diffs @ [String a @ '' and '' @ String b @ '' have different labels: ''
                           @ Label a @ '' and '' @ Label b]
             else diffs);
          diffs = (if SymbolType a = ''type'' \<and> UnderlyingType a \<noteq> UnderlyingType b
             then diffs @ [''type alias '' @ String a @ '' and '' @ String b
                           @ '' have different underlying types: ''
                           @ UnderlyingType a @ '' and '' @ UnderlyingType b]
             else diffs);
          diffs = (if SymbolType a = ''method'' \<and> ReceiverType a \<noteq> ReceiverType b
             then diffs @ [''method '' @ String a @ '' and '' @ String b
                           @ '' have different receiver types: ''
                           @ ReceiverType a @ '' and '' @ ReceiverType b]
             else diffs)
      in and_then (compareSymbolList (Members a) (Members b) True) (\<lambda>ms.
           let diffs = diffs @ ms in
           if SymbolType a = ''func''
           then (case FuncSpec a of
                   None \<Rightarrow> panics NilDereference
                 | Some fa \<Rightarrow>
                     (case FuncSpec b of
                        None \<Rightarrow> panics NilDereference
                      | Some fb \<Rightarrow>
                          and_then (compareFuncSpec fa fb) (\<lambda>fs. returns (diffs @ fs))))
           else returns diffs))"
| "compareFuncSpec a b =
     and_then (compareSymbolList (Params a) (Params b) False) (\<lambda>ps.
       let diffs = map (\<lambda>diff. ''func param mismatch: '' @ diff) ps in
       and_then (compareSymbolList (Returns a) (Returns b) False) (\<lambda>rs.
         returns (diffs @ map (\<lambda>diff. ''func result mismatch: '' @ diff) rs)))"
  by pat_completeness auto

termination
  by (relation "measure (\<lambda>x. case x of
        Inl (Inl (source, target, c)) \<Rightarrow> 2 * size_list size target + 1
      | Inl (Inr (agg, diffs, target, c)) \<Rightarrow> 2 * size_list size target
      | Inr (Inl (a, b, c)) \<Rightarrow> 2 * size b
      | Inr (Inr (fa, fb)) \<Rightarrow> 2 * size fb + 2)")
    (auto simp: size_Members2 size_FuncSpec2 size_Params2 size_Returns2)

section \<open>The extractor\<close>

subsection \<open>The syntax trees of \<^verbatim>\<open>go/ast\<close> that the program reads\<close>

text \<open>
  The expressions of \<^verbatim>\<open>go/ast\<close> (\<^verbatim>\<open>ast.Expr\<close>) that the parser builds where a type is
  expected, with the fields the program reads: the four node kinds that \<^verbatim>\<open>formatType\<close>
  has a case for, and the others (function, pointer, map and channel types, qualified
  names, variadic parameters, parenthesised types, instantiated generic types, the
  unions and approximations of constraint interfaces, and the node the parser leaves at
  a syntax error).
  A \<^verbatim>\<open>*ast.FieldList\<close> that the parser always supplies (the methods of an interface type,
  the fields of a struct type) is the list of its fields; one that may be nil (the
  parameters and results of a function type, the receiver of a function declaration) is an
  option. A field holds the names it declares and its type.
\<close>

datatype expr =
    ast_Ident string
  | ast_InterfaceType "field list"
  | ast_StructType "field list"
  | ast_ArrayType "expr option" expr
  | ast_FuncType funcType
  | ast_StarExpr expr
  | ast_MapType expr expr
  | ast_ChanType expr
  | ast_SelectorExpr expr string
  | ast_Ellipsis "expr option"
  | ast_ParenExpr expr
  | ast_IndexExpr expr expr
  | ast_BinaryExpr expr expr
  | ast_UnaryExpr expr
  | ast_BadExpr
  and field = ast_Field (Field_Names: "string list") (Field_Type: expr)
  and funcType = FuncType (FuncType_Params: "field list option")
    (FuncType_Results: "field list option")

text \<open>An identifier node with its position: \<^verbatim>\<open>ast.Ident{NamePos, Name}\<close>.\<close>

datatype ident = ast_IdentAt (NamePos: int) (Name: string)

text \<open>
  \<^verbatim>\<open>ast.TypeSpec\<close>: \<^verbatim>\<open>funcSpec\<close> builds type specs whose \<^verbatim>\<open>Name\<close> is nil, so the name is
  an option.
\<close>

datatype typeSpec = TypeSpec (TypeSpec_Name: "ident option") (TypeSpec_Type: expr)

datatype spec = ast_TypeSpec typeSpec | ast_ValueSpec "ident list" | ast_ImportSpec

text \<open>
  \<^verbatim>\<open>ast.FuncDecl\<close> with its receiver, name and type; \<open>FuncDecl_Pos\<close> is the value of
  \<^verbatim>\<open>decl.Pos()\<close>, the position of the keyword \<^verbatim>\<open>func\<close>.
\<close>

datatype funcDecl = FuncDecl (FuncDecl_Recv: "field list option") (FuncDecl_Name: string)
  (FuncDecl_Type: funcType) (FuncDecl_Pos: int)

datatype decl = ast_FuncDecl funcDecl | ast_GenDecl "spec list" | ast_BadDecl

text \<open>\<^verbatim>\<open>ast.File\<close>: \<^verbatim>\<open>file.Pos()\<close> is the position of the keyword \<^verbatim>\<open>package\<close>.\<close>

datatype ast_File = File (File_Package: int) (File_Decls: "decl list")

subsection \<open>\<^verbatim>\<open>formatType\<close> and \<^verbatim>\<open>funcSpec\<close>\<close>

text \<open>
  \<^verbatim>\<open>spec.Pos()\<close> of a type spec is \<^verbatim>\<open>spec.Name.Pos()\<close>, which reads through the pointer
  \<^verbatim>\<open>Name\<close>.
\<close>

definition TypeSpec_Pos :: "typeSpec \<Rightarrow> error + int" where
  "TypeSpec_Pos spec =
     (case TypeSpec_Name spec of None \<Rightarrow> Inl NilDereference | Some n \<Rightarrow> Inr (NamePos n))"

text \<open>
  The end of every branch of \<^verbatim>\<open>formatType\<close>:
  \<^verbatim>\<open>if basePos != 0 { res.Pos = spec.Pos() - basePos }; return res\<close>.
\<close>

definition withPos :: "typeSpec \<Rightarrow> int \<Rightarrow> Symbol \<Rightarrow> error + Symbol" where
  "withPos spec basePos res =
     (if basePos \<noteq> 0
      then (case TypeSpec_Pos spec of
              Inl e \<Rightarrow> Inl e
            | Inr p \<Rightarrow> Inr (Symbol (Label res) (SymbolType res) (UnderlyingType res)
                (ReceiverType res) (FileName res) (p - basePos) (Members res) (FuncSpec res)))
      else Inr res)"

text \<open>\<^verbatim>\<open>name := ""; if spec.Name != nil { name = spec.Name.Name }\<close>\<close>

definition specName :: "typeSpec \<Rightarrow> string" where
  "specName spec = (case TypeSpec_Name spec of None \<Rightarrow> [] | Some n \<Rightarrow> Name n)"

text \<open>
  \<^verbatim>\<open>fmt.Sprint(specType.Elt)\<close>: an identifier prints as its name (\<^verbatim>\<open>*ast.Ident\<close> has a
  \<^verbatim>\<open>String\<close> method); how the library prints any other node is the parameter \<open>sprint\<close>.
\<close>

definition Sprint :: "(expr \<Rightarrow> string) \<Rightarrow> expr \<Rightarrow> string" where
  "Sprint sprint e = (case e of ast_Ident n \<Rightarrow> n | _ \<Rightarrow> sprint e)"

text \<open>
  The loop over the fields of a struct type. The type assertion
  \<^verbatim>\<open>methodDecl.Type.(*ast.Ident)\<close> panics when the embedded type is not an identifier.
\<close>

fun structMembers :: "Symbol list \<Rightarrow> field list \<Rightarrow> error + Symbol list" where
  "structMembers members [] = Inr members"
| "structMembers members (methodDecl # rest) =
     (if length (Field_Names methodDecl) = 0
      then (case Field_Type methodDecl of
              ast_Ident n \<Rightarrow>
                structMembers (members @ [Symbol n ''embed'' [] [] [] 0 [] None]) rest
            | _ \<Rightarrow> Inl TypeAssertion)
      else structMembers
             (members @ [Symbol (hd (Field_Names methodDecl)) ''member'' [] [] [] 0 [] None])
             rest)"

lemma size_field_funcType:
  "Field_Type f = ast_FuncType ft \<Longrightarrow> size ft < Suc (size f + n)"
  by (cases f) simp

lemma size_funcType_Params: "FuncType_Params ft = Some ps \<Longrightarrow> size_list size ps < size ft"
  by (cases ft) simp

lemma size_funcType_Results: "FuncType_Results ft = Some rs \<Longrightarrow> size_list size rs < size ft"
  by (cases ft) simp

lemma size_Field_Type: "size (Field_Type f) < Suc (size f + n)"
  by (cases f) simp

text \<open>
  \<^verbatim>\<open>formatType\<close> and \<^verbatim>\<open>funcSpec\<close>. \<open>interfaceMembers\<close> is the loop of \<^verbatim>\<open>formatType\<close> over the
  methods of an interface type, \<open>fieldSymbols\<close> the loop of \<^verbatim>\<open>funcSpec\<close> over a parameter or
  result list; both append to the slice they are given. The \<^verbatim>\<open>default\<close> branch of the type
  switch is \<^verbatim>\<open>panic("unknown type")\<close>.
\<close>

function formatType :: "(expr \<Rightarrow> string) \<Rightarrow> typeSpec \<Rightarrow> int \<Rightarrow> error + Symbol"
  and interfaceMembers :: "(expr \<Rightarrow> string) \<Rightarrow> Symbol list \<Rightarrow> field list \<Rightarrow> error + Symbol list"
  and funcSpec :: "(expr \<Rightarrow> string) \<Rightarrow> funcType \<Rightarrow> error + FuncSpec"
  and fieldSymbols :: "(expr \<Rightarrow> string) \<Rightarrow> Symbol list \<Rightarrow> field list \<Rightarrow> error + Symbol list"
where
  "formatType sprint spec basePos =
     (case TypeSpec_Type spec of
        ast_InterfaceType methods \<Rightarrow>
          (case interfaceMembers sprint [] methods of
             Inl e \<Rightarrow> Inl e
           | Inr members \<Rightarrow>
               withPos spec basePos
                 (Symbol (specName spec) ''interface'' [] [] [] 0 members None))
      | ast_StructType fields \<Rightarrow>
          (case structMembers [] fields of
             Inl e \<Rightarrow> Inl e
           | Inr members \<Rightarrow>
               withPos spec basePos
                 (Symbol (specName spec) ''struct'' [] [] [] 0 members None))
      | ast_Ident n \<Rightarrow>
          withPos spec basePos (Symbol (specName spec) ''type'' n [] [] 0 [] None)
      | ast_ArrayType len elt \<Rightarrow>
          withPos spec basePos
            (Symbol (''[]'' @ Sprint sprint elt) ''array'' [] [] [] 0 [] None)
      | _ \<Rightarrow> Inl UnknownType)"
| "interfaceMembers sprint members [] = Inr members"
| "interfaceMembers sprint members (methodDecl # rest) =
     (if length (Field_Names methodDecl) = 0
      then (case Field_Type methodDecl of
              ast_Ident n \<Rightarrow>
                interfaceMembers sprint
                  (members @ [Symbol n ''embed'' [] [] [] 0 [] None]) rest
            | _ \<Rightarrow> Inl TypeAssertion)
      else (case Field_Type methodDecl of
              ast_FuncType ft \<Rightarrow>
                (case funcSpec sprint ft of
                   Inl e \<Rightarrow> Inl e
                 | Inr fs \<Rightarrow>
                     interfaceMembers sprint
                       (members @ [Symbol (hd (Field_Names methodDecl)) ''method'' [] [] [] 0 []
                                     (Some fs)])
                       rest)
            | _ \<Rightarrow> Inl TypeAssertion))"
| "funcSpec sprint decl =
     (case (case FuncType_Params decl of
              None \<Rightarrow> Inr []
            | Some params \<Rightarrow> fieldSymbols sprint [] params) of
        Inl e \<Rightarrow> Inl e
      | Inr resParams \<Rightarrow>
          (case (case FuncType_Results decl of
                   None \<Rightarrow> Inr []
                 | Some results \<Rightarrow> fieldSymbols sprint [] results) of
             Inl e \<Rightarrow> Inl e
           | Inr resReturns \<Rightarrow> Inr (FuncSpec_of resParams resReturns)))"
| "fieldSymbols sprint res [] = Inr res"
| "fieldSymbols sprint res (param # rest) =
     (case formatType sprint (TypeSpec None (Field_Type param)) 0 of
        Inl e \<Rightarrow> Inl e
      | Inr s \<Rightarrow> fieldSymbols sprint (res @ [s]) rest)"
  by pat_completeness auto

termination
  by (relation "measure (\<lambda>x. case x of
        Inl (Inl (sprint, spec, basePos)) \<Rightarrow> size (TypeSpec_Type spec)
      | Inl (Inr (sprint, members, methods)) \<Rightarrow> size_list size methods
      | Inr (Inl (sprint, ft)) \<Rightarrow> size ft
      | Inr (Inr (sprint, res, fields)) \<Rightarrow> size_list size fields)")
    (auto simp: size_field_funcType size_funcType_Params size_funcType_Results size_Field_Type)

subsection \<open>\<^verbatim>\<open>findReceiver\<close> and the extraction loop of \<^verbatim>\<open>main\<close>\<close>

text \<open>The loop of \<^verbatim>\<open>findReceiver\<close> over \<^verbatim>\<open>decl.Recv.List\<close>.\<close>

fun receiverLoop :: "field list \<Rightarrow> string" where
  "receiverLoop [] = ''unknown''"
| "receiverLoop (fld # rest) =
     (case Field_Type fld of ast_Ident n \<Rightarrow> n | _ \<Rightarrow> receiverLoop rest)"

definition findReceiver :: "funcDecl \<Rightarrow> error + string" where
  "findReceiver decl =
     (case FuncDecl_Recv decl of
        None \<Rightarrow> Inl NilDereference
      | Some recvList \<Rightarrow> Inr (receiverLoop recvList))"

text \<open>
  The body of the \<^verbatim>\<open>case *ast.FuncDecl\<close> of \<^verbatim>\<open>main\<close>. \<open>IsExported\<close> is
  \<^verbatim>\<open>ast.IsExported\<close> of the library (the name starts with an upper-case letter), a
  parameter of the model. The fields of the composite literal are evaluated in order.
\<close>

definition exportFuncDecl ::
  "(string \<Rightarrow> bool) \<Rightarrow> (expr \<Rightarrow> string) \<Rightarrow> string \<Rightarrow> ast_File \<Rightarrow> Symbol list \<Rightarrow> funcDecl
   \<Rightarrow> error + Symbol list" where
  "exportFuncDecl IsExported sprint fileName fl exports decl =
     (if \<not> IsExported (FuncDecl_Name decl) then Inr exports
      else if FuncDecl_Recv decl = None
      then (case funcSpec sprint (FuncDecl_Type decl) of
              Inl e \<Rightarrow> Inl e
            | Inr fs \<Rightarrow>
                Inr (exports @ [Symbol (FuncDecl_Name decl) ''func'' [] [] fileName
                                  (FuncDecl_Pos decl - File_Package fl) [] (Some fs)]))
      else (case findReceiver decl of
              Inl e \<Rightarrow> Inl e
            | Inr recv \<Rightarrow>
                (case funcSpec sprint (FuncDecl_Type decl) of
                   Inl e \<Rightarrow> Inl e
                 | Inr fs \<Rightarrow>
                     Inr (exports @ [Symbol (FuncDecl_Name decl) ''method'' [] recv fileName
                                       (FuncDecl_Pos decl - File_Package fl) [] (Some fs)]))))"

text \<open>
  The loop over \<^verbatim>\<open>decl.Specs\<close> of a \<^verbatim>\<open>*ast.GenDecl\<close>. \<^verbatim>\<open>spec.Name.Name\<close> reads through the
  pointer \<^verbatim>\<open>Name\<close>, \<^verbatim>\<open>spec.Names[0]\<close> indexes the slice of names.
\<close>

fun specLoop ::
  "(string \<Rightarrow> bool) \<Rightarrow> (expr \<Rightarrow> string) \<Rightarrow> string \<Rightarrow> ast_File \<Rightarrow> Symbol list \<Rightarrow> spec list
   \<Rightarrow> error + Symbol list" where
  "specLoop IsExported sprint fileName fl exports [] = Inr exports"
| "specLoop IsExported sprint fileName fl exports (ast_TypeSpec spec # rest) =
     (case TypeSpec_Name spec of
        None \<Rightarrow> Inl NilDereference
      | Some n \<Rightarrow>
          if \<not> IsExported (Name n) then specLoop IsExported sprint fileName fl exports rest
          else (case formatType sprint spec (File_Package fl) of
                  Inl e \<Rightarrow> Inl e
                | Inr res \<Rightarrow>
                    specLoop IsExported sprint fileName fl
                      (exports @ [Symbol (Label res) (SymbolType res) (UnderlyingType res)
                         (ReceiverType res) fileName (Pos res) (Members res) (FuncSpec res)])
                      rest))"
| "specLoop IsExported sprint fileName fl exports (ast_ValueSpec names # rest) =
     (case names of
        [] \<Rightarrow> Inl IndexOutOfRange
      | n # _ \<Rightarrow>
          if \<not> IsExported (Name n) then specLoop IsExported sprint fileName fl exports rest
          else specLoop IsExported sprint fileName fl
                 (exports @ [Symbol (Name n) ''var'' [] [] fileName
                               (NamePos n - File_Package fl) [] None])
                 rest)"
| "specLoop IsExported sprint fileName fl exports (ast_ImportSpec # rest) =
     specLoop IsExported sprint fileName fl exports rest"

text \<open>The loop over \<^verbatim>\<open>file.Decls\<close>.\<close>

fun declLoop ::
  "(string \<Rightarrow> bool) \<Rightarrow> (expr \<Rightarrow> string) \<Rightarrow> string \<Rightarrow> ast_File \<Rightarrow> Symbol list \<Rightarrow> decl list
   \<Rightarrow> error + Symbol list" where
  "declLoop IsExported sprint fileName fl exports [] = Inr exports"
| "declLoop IsExported sprint fileName fl exports (decl # rest) =
     (case (case decl of
              ast_FuncDecl fd \<Rightarrow> exportFuncDecl IsExported sprint fileName fl exports fd
            | ast_GenDecl specs \<Rightarrow> specLoop IsExported sprint fileName fl exports specs
            | ast_BadDecl \<Rightarrow> Inr exports) of
        Inl e \<Rightarrow> Inl e
      | Inr exports' \<Rightarrow> declLoop IsExported sprint fileName fl exports' rest)"

text \<open>
  The loop \<^verbatim>\<open>for fileName, file := range pkg.Files\<close> of \<^verbatim>\<open>main\<close>, which builds \<^verbatim>\<open>exports\<close>.
  \<^verbatim>\<open>pkg.Files\<close> is a map; the list \<open>files\<close> holds its entries in the order in which the loop
  visits them.
\<close>

fun fileLoop ::
  "(string \<Rightarrow> bool) \<Rightarrow> (expr \<Rightarrow> string) \<Rightarrow> Symbol list \<Rightarrow> (string \<times> ast_File) list
   \<Rightarrow> error + Symbol list" where
  "fileLoop IsExported sprint exports [] = Inr exports"
| "fileLoop IsExported sprint exports ((fileName, fl) # rest) =
     (case declLoop IsExported sprint fileName fl exports (File_Decls fl) of
        Inl e \<Rightarrow> Inl e
      | Inr exports' \<Rightarrow> fileLoop IsExported sprint exports' rest)"

definition main_exports ::
  "(string \<Rightarrow> bool) \<Rightarrow> (expr \<Rightarrow> string) \<Rightarrow> (string \<times> ast_File) list \<Rightarrow> error + Symbol list" where
  "main_exports IsExported sprint files = fileLoop IsExported sprint [] files"

section \<open>Notions used to state the properties\<close>

subsection \<open>Diagnostics and runs of the comparator\<close>












subsection \<open>Well-keyed symbols\<close>






subsection \<open>Shapes of type expressions\<close>

text \<open>The shapes for which the type switch of \<^verbatim>\<open>formatType\<close> has a case.\<close>

definition supportedShape :: "expr \<Rightarrow> bool" where
  "supportedShape e =
     (case e of
        ast_InterfaceType methods \<Rightarrow> True
      | ast_StructType fields \<Rightarrow> True
      | ast_Ident n \<Rightarrow> True
      | ast_ArrayType len elt \<Rightarrow> True
      | _ \<Rightarrow> False)"

definition isIdent :: "expr \<Rightarrow> bool" where
  "isIdent e = (case e of ast_Ident n \<Rightarrow> True | _ \<Rightarrow> False)"

text \<open>A field without names: an embedded type.\<close>

definition embedded :: "field \<Rightarrow> bool" where
  "embedded f \<longleftrightarrow> length (Field_Names f) = 0"

lemma size_elem_field: "x \<in> set xs \<Longrightarrow> size x \<le> size_list size xs"
  for x :: field
  by (induction xs) auto

lemma size_method_sig:
  "f \<in> set methods \<Longrightarrow> Field_Type f = ast_FuncType ft \<Longrightarrow> size ft < Suc (size_list size methods)"
  using size_elem_field [of f methods] by (cases f) simp

lemma size_in_FuncType_Params:
  "FuncType_Params ft = Some ps \<Longrightarrow> p \<in> set ps \<Longrightarrow> size (Field_Type p) < size ft"
  using size_elem_field [of p ps] by (cases ft; cases p) simp

lemma size_in_FuncType_Results:
  "FuncType_Results ft = Some ps \<Longrightarrow> p \<in> set ps \<Longrightarrow> size (Field_Type p) < size ft"
  using size_elem_field [of p ps] by (cases ft; cases p) simp

text \<open>
  The type expressions that can be classified, read off the syntax alone. An identifier and
  an array type are classifiable. A struct type is classifiable when each of its embedded
  fields has an identifier as its type. An interface type is classifiable when each of its
  embedded members has an identifier as its type and each of its named members is a function
  type with a classifiable signature. No other expression is classifiable. A signature is
  classifiable when the type of each of its parameters and results is.
\<close>

function classifiable :: "expr \<Rightarrow> bool"
  and classifiableSig :: "funcType \<Rightarrow> bool"
where
  "classifiable e =
     (case e of
        ast_Ident n \<Rightarrow> True
      | ast_ArrayType len elt \<Rightarrow> True
      | ast_StructType fields \<Rightarrow> (\<forall>f\<in>set fields. embedded f \<longrightarrow> isIdent (Field_Type f))
      | ast_InterfaceType methods \<Rightarrow>
          (\<forall>f\<in>set methods.
             if embedded f then isIdent (Field_Type f)
             else (case Field_Type f of ast_FuncType ft \<Rightarrow> classifiableSig ft | _ \<Rightarrow> False))
      | _ \<Rightarrow> False)"
| "classifiableSig ft =
     ((case FuncType_Params ft of
         None \<Rightarrow> True
       | Some params \<Rightarrow> (\<forall>p\<in>set params. classifiable (Field_Type p)))
      \<and> (case FuncType_Results ft of
            None \<Rightarrow> True
          | Some results \<Rightarrow> (\<forall>p\<in>set results. classifiable (Field_Type p))))"
  by pat_completeness auto

termination
  by (relation "measure (\<lambda>x. case x of Inl e \<Rightarrow> size e | Inr ft \<Rightarrow> size ft)")
     (auto simp: size_method_sig size_in_FuncType_Params size_in_FuncType_Results)

declare classifiable.simps [simp del] classifiableSig.simps [simp del]

text \<open>The condition of \<open>classifiable\<close> on one member of an interface type.\<close>

definition classifiableMember :: "field \<Rightarrow> bool" where
  "classifiableMember f =
     (if embedded f then isIdent (Field_Type f)
      else (case Field_Type f of ast_FuncType ft \<Rightarrow> classifiableSig ft | _ \<Rightarrow> False))"

text \<open>The receiver type recorded for a receiver field.\<close>

definition receiverName :: "field \<Rightarrow> string" where
  "receiverName recv = (case Field_Type recv of ast_Ident n \<Rightarrow> n | _ \<Rightarrow> ''unknown'')"

section \<open>Concrete inputs\<close>

subsection \<open>Symbols\<close>

text \<open>
  The symbol that \<^verbatim>\<open>funcSpec\<close> builds for a parameter or result whose type is the
  identifier \<open>underlying\<close>: no label, kind \<^verbatim>\<open>type\<close>.
\<close>

definition typeParam :: "string \<Rightarrow> Symbol" where
  "typeParam underlying = Symbol '''' ''type'' underlying '''' '''' 0 [] None"

text \<open>A free function \<^verbatim>\<open>Foo\<close> with the given parameters and no results.\<close>

definition funcFoo :: "Symbol list \<Rightarrow> Symbol" where
  "funcFoo params = Symbol ''Foo'' ''func'' '''' '''' '''' 0 [] (Some (FuncSpec_of params []))"

text \<open>A variable; it has no \<^verbatim>\<open>funcSpec\<close>.\<close>

definition varSym :: "string \<Rightarrow> Symbol" where
  "varSym name = Symbol name ''var'' '''' '''' '''' 0 [] None"

text \<open>A method \<^verbatim>\<open>M\<close> with one parameter; \<open>recv\<close> is empty for an interface method.\<close>

definition methodM :: "string \<Rightarrow> string \<Rightarrow> Symbol" where
  "methodM recv underlying = Symbol ''M'' ''method'' '''' recv '''' 0 []
     (Some (FuncSpec_of [typeParam underlying] []))"

text \<open>An interface \<^verbatim>\<open>I\<close> with the single method \<^verbatim>\<open>M\<close>.\<close>

definition interfaceI :: "string \<Rightarrow> Symbol" where
  "interfaceI underlying =
     Symbol ''I'' ''interface'' '''' '''' '''' 0 [methodM '''' underlying] None"



subsection \<open>Declarations\<close>

text \<open>
  The two library functions that the model takes as parameters, at the instances used for
  concrete inputs: \<^verbatim>\<open>ast.IsExported\<close> on names that start with an ASCII letter, and a
  fixed text for the nodes that \<^verbatim>\<open>fmt.Sprint\<close> prints field by field.
\<close>

definition asciiExported :: "string \<Rightarrow> bool" where
  "asciiExported name =
     (case name of [] \<Rightarrow> False | ch # _ \<Rightarrow> ch \<in> set ''ABCDEFGHIJKLMNOPQRSTUVWXYZ'')"

definition sprintNode :: "expr \<Rightarrow> string" where
  "sprintNode e = ''&{...}''"

text \<open>
  \<^verbatim>\<open>package p; type A int; type M map[string]int\<close>: the second declared type is a map type.
\<close>

definition mapTypeSpec :: typeSpec where
  "mapTypeSpec = TypeSpec (Some (ast_IdentAt 29 ''M''))
     (ast_MapType (ast_Ident ''string'') (ast_Ident ''int''))"

definition mapTypeFile :: ast_File where
  "mapTypeFile = File 1
     [ast_GenDecl [ast_TypeSpec (TypeSpec (Some (ast_IdentAt 17 ''A'')) (ast_Ident ''int''))],
      ast_GenDecl [ast_TypeSpec mapTypeSpec]]"

text \<open>\<^verbatim>\<open>func (r T) M(p *int)\<close>: a named receiver, a pointer parameter.\<close>

definition pointerParamMethod :: funcDecl where
  "pointerParamMethod = FuncDecl (Some [ast_Field [''r''] (ast_Ident ''T'')]) ''M''
     (FuncType (Some [ast_Field [''p''] (ast_StarExpr (ast_Ident ''int''))]) None) 12"

text \<open>\<^verbatim>\<open>func (r T) M(p int)\<close> and \<^verbatim>\<open>func (r *T) M(p int)\<close>.\<close>

definition namedReceiverMethod :: funcDecl where
  "namedReceiverMethod = FuncDecl (Some [ast_Field [''r''] (ast_Ident ''T'')]) ''M''
     (FuncType (Some [ast_Field [''p''] (ast_Ident ''int'')]) None) 12"

definition pointerReceiverMethod :: funcDecl where
  "pointerReceiverMethod = FuncDecl (Some [ast_Field [''r''] (ast_StarExpr (ast_Ident ''T''))]) ''M''
     (FuncType (Some [ast_Field [''p''] (ast_Ident ''int'')]) None) 12"

text \<open>
  \<^verbatim>\<open>func (r T) M(p struct{ *X })\<close>: the parameter is a struct type, a shape that
  \<^verbatim>\<open>formatType\<close> has a case for, with an embedded pointer.
\<close>

definition embeddedPointerParamMethod :: funcDecl where
  "embeddedPointerParamMethod = FuncDecl (Some [ast_Field [''r''] (ast_Ident ''T'')]) ''M''
     (FuncType (Some [ast_Field [''p'']
        (ast_StructType [ast_Field [] (ast_StarExpr (ast_Ident ''X''))])]) None) 12"

text \<open>
  \<^verbatim>\<open>func (r T) M(p interface{ M(p *int) })\<close>: the parameter is an interface type
  whose method has a pointer parameter.
\<close>

definition nestedPointerParamMethod :: funcDecl where
  "nestedPointerParamMethod = FuncDecl (Some [ast_Field [''r''] (ast_Ident ''T'')]) ''M''
     (FuncType (Some [ast_Field [''p'']
        (ast_InterfaceType [ast_Field [''M'']
           (ast_FuncType (FuncType (Some [ast_Field [''p''] (ast_StarExpr (ast_Ident ''int''))])
              None))])]) None) 12"





section \<open>Properties of the comparator\<close>

subsection \<open>Runs and iteration orders\<close>

declare compareSymbolList.simps [simp del] compareSymbol.simps [simp del]
  compareFuncSpec.simps [simp del]

lemma and_then_returns: "and_then (returns x) f = f x"
  by (simp add: and_then_def returns_def)

lemma and_then_panics: "and_then (panics e) f = panics e"
  by (simp add: and_then_def panics_def)











subsection \<open>The loops of \<^verbatim>\<open>compareSymbolList\<close> on lists with unique Idents\<close>


subsection \<open>The lookup as an association list\<close>



















subsection \<open>All runs report the same diagnostics\<close>








subsection \<open>Comparing a well-keyed symbol with itself\<close>





section \<open>Properties of the extractor\<close>

lemma formatType_unsupported:
  "\<not> supportedShape (TypeSpec_Type spec) \<Longrightarrow> formatType sprint spec basePos = Inl UnknownType"
  by (cases "TypeSpec_Type spec") (simp_all add: supportedShape_def)

declare formatType.simps [simp del] funcSpec.simps [simp del]

text \<open>
  A panic of \<^verbatim>\<open>formatType\<close> on an exported type declaration ends each of the three nested
  loops of \<^verbatim>\<open>main\<close>; a panic on an earlier declaration ends them as well.
\<close>

lemma specLoop_aborts:
  assumes "ast_TypeSpec spec \<in> set specs" "TypeSpec_Name spec = Some n" "IsExported (Name n)"
    "\<not> supportedShape (TypeSpec_Type spec)"
  shows "isl (specLoop IsExported sprint fileName fl exports specs)"
  using assms(1)
proof (induction specs arbitrary: exports)
  case Nil
  then show ?case by simp
next
  case (Cons a rest)
  show ?case
  proof (cases "a = ast_TypeSpec spec")
    case True
    then show ?thesis using assms(2-4) by (simp add: formatType_unsupported)
  next
    case False
    then have "ast_TypeSpec spec \<in> set rest" using Cons.prems by simp
    then have "isl (specLoop IsExported sprint fileName fl exports' rest)" for exports'
      by (rule Cons.IH)
    then show ?thesis
      by (cases a) (auto split: option.splits sum.splits list.splits)
  qed
qed

lemma declLoop_aborts:
  assumes "ast_GenDecl specs \<in> set decls" "ast_TypeSpec spec \<in> set specs"
    "TypeSpec_Name spec = Some n" "IsExported (Name n)" "\<not> supportedShape (TypeSpec_Type spec)"
  shows "isl (declLoop IsExported sprint fileName fl exports decls)"
  using assms(1)
proof (induction decls arbitrary: exports)
  case Nil
  then show ?case by simp
next
  case (Cons d rest)
  show ?case
  proof (cases "d = ast_GenDecl specs")
    case True
    have "isl (specLoop IsExported sprint fileName fl exports specs)"
      by (rule specLoop_aborts [where IsExported = IsExported and n = n, OF assms(2-5)])
    then show ?thesis using True by (auto simp: isl_def)
  next
    case False
    then have "ast_GenDecl specs \<in> set rest" using Cons.prems by simp
    then show ?thesis using Cons.IH by (auto split: sum.splits decl.splits)
  qed
qed

lemma fileLoop_aborts:
  assumes "(fileName, fl) \<in> set files" "ast_GenDecl specs \<in> set (File_Decls fl)"
    "ast_TypeSpec spec \<in> set specs"
    "TypeSpec_Name spec = Some n" "IsExported (Name n)" "\<not> supportedShape (TypeSpec_Type spec)"
  shows "isl (fileLoop IsExported sprint exports files)"
  using assms(1)
proof (induction files arbitrary: exports)
  case Nil
  then show ?case by simp
next
  case (Cons p rest)
  show ?case
  proof (cases "p = (fileName, fl)")
    case True
    have "isl (declLoop IsExported sprint fileName fl exports (File_Decls fl))"
      by (rule declLoop_aborts [where IsExported = IsExported and n = n, OF assms(2-6)])
    then show ?thesis using True by (auto simp: isl_def)
  next
    case False
    then have "(fileName, fl) \<in> set rest" using Cons.prems by simp
    then show ?thesis using Cons.IH by (cases p) (auto split: sum.splits)
  qed
qed

lemma receiverLoop_single: "receiverLoop [recv] = receiverName recv"
  by (cases "Field_Type recv") (simp_all add: receiverName_def)





subsection \<open>The panics of \<^verbatim>\<open>funcSpec\<close>, read off the syntax\<close>

lemma classifiable_shapes:
  "classifiable (ast_Ident n)"
  "classifiable (ast_ArrayType len elt)"
  "classifiable (ast_StructType fields) \<longleftrightarrow>
     (\<forall>f\<in>set fields. embedded f \<longrightarrow> isIdent (Field_Type f))"
  "classifiable (ast_InterfaceType methods) \<longleftrightarrow> (\<forall>f\<in>set methods. classifiableMember f)"
  "\<not> supportedShape e \<Longrightarrow> \<not> classifiable e"
  by (simp_all add: classifiable.simps [of "ast_Ident n"]
        classifiable.simps [of "ast_ArrayType len elt"]
        classifiable.simps [of "ast_StructType fields"]
        classifiable.simps [of "ast_InterfaceType methods"]
        classifiable.simps [of e] classifiableMember_def supportedShape_def split: expr.splits)

lemma structMembers_isl:
  "isl (structMembers members fields) \<longleftrightarrow>
     \<not> (\<forall>f\<in>set fields. embedded f \<longrightarrow> isIdent (Field_Type f))"
proof (induction fields arbitrary: members)
  case Nil
  show ?case by simp
next
  case (Cons g rest)
  show ?case
    by (cases "Field_Type g") (simp_all add: Cons.IH embedded_def isIdent_def)
qed

lemma isl_bind:
  "isl (case r of Inl e \<Rightarrow> Inl e | Inr x \<Rightarrow> f x) \<longleftrightarrow> isl r \<or> (\<exists>x. r = Inr x \<and> isl (f x))"
  by (cases r) simp_all

lemma isl_withPos_0: "\<not> isl (withPos spec 0 res)"
  by (simp add: withPos_def)

text \<open>
  \<^verbatim>\<open>formatType\<close> on a type spec built by \<^verbatim>\<open>funcSpec\<close> (base position 0) panics exactly
  when the type is not classifiable, and \<^verbatim>\<open>funcSpec\<close> panics exactly when the signature is
  not classifiable; so do the two loops.
\<close>

lemma panics_iff_not_classifiable:
  shows "basePos = 0 \<longrightarrow>
           (isl (formatType sprint spec basePos) \<longleftrightarrow> \<not> classifiable (TypeSpec_Type spec))"
    and "isl (interfaceMembers sprint1 members methods) \<longleftrightarrow>
           \<not> (\<forall>f\<in>set methods. classifiableMember f)"
    and "isl (funcSpec sprint2 ft) \<longleftrightarrow> \<not> classifiableSig ft"
    and "isl (fieldSymbols sprint3 res fields) \<longleftrightarrow>
           \<not> (\<forall>p\<in>set fields. classifiable (Field_Type p))"
proof (induction sprint spec basePos and sprint1 members methods and sprint2 ft
    and sprint3 res fields rule: formatType_interfaceMembers_funcSpec_fieldSymbols.induct)
  case (1 sprint spec basePos)
  show ?case
  proof
    assume z: "basePos = 0"
    show "isl (formatType sprint spec basePos) \<longleftrightarrow> \<not> classifiable (TypeSpec_Type spec)"
    proof (cases "TypeSpec_Type spec")
      case (ast_InterfaceType methods)
      have "isl (interfaceMembers sprint [] methods) \<longleftrightarrow>
              \<not> (\<forall>f\<in>set methods. classifiableMember f)"
        using 1 [OF ast_InterfaceType] .
      then show ?thesis
        by (simp add: formatType.simps ast_InterfaceType z classifiable_shapes isl_bind
              isl_withPos_0)
    next
      case (ast_StructType fields)
      then show ?thesis
        by (simp add: formatType.simps z classifiable_shapes isl_bind isl_withPos_0
              structMembers_isl)
    qed (simp_all add: formatType.simps classifiable_shapes supportedShape_def isl_withPos_0 z)
  qed
next
  case (2 sprint members)
  show ?case by simp
next
  case (3 sprint members methodDecl rest)
  show ?case
  proof (cases "length (Field_Names methodDecl) = 0")
    case True
    then have nil: "Field_Names methodDecl = []"
      by simp
    show ?thesis
    proof (cases "Field_Type methodDecl")
      case (ast_Ident n)
      then show ?thesis
        using 3(1) [OF True ast_Ident] nil
        by (simp add: classifiableMember_def embedded_def isIdent_def)
    qed (simp_all add: nil classifiableMember_def embedded_def isIdent_def)
  next
    case False
    then have ne: "Field_Names methodDecl \<noteq> []"
      by simp
    show ?thesis
    proof (cases "Field_Type methodDecl")
      case (ast_FuncType ft)
      show ?thesis
      proof (cases "funcSpec sprint ft")
        case (Inl e)
        then show ?thesis
          using 3(2) [OF False ast_FuncType] ne ast_FuncType
          by (simp add: classifiableMember_def embedded_def)
      next
        case (Inr fs)
        then show ?thesis
          using 3(2) [OF False ast_FuncType] 3(3) [OF False ast_FuncType Inr] ne ast_FuncType
          by (simp add: classifiableMember_def embedded_def)
      qed
    qed (simp_all add: ne classifiableMember_def embedded_def)
  qed
next
  case (4 sprint decl)
  define A where "A = (case FuncType_Params decl of
                         None \<Rightarrow> Inr [] | Some params \<Rightarrow> fieldSymbols sprint [] params)"
  define B where "B = (case FuncType_Results decl of
                         None \<Rightarrow> Inr [] | Some results \<Rightarrow> fieldSymbols sprint [] results)"
  have f: "funcSpec sprint decl =
             (case A of Inl e \<Rightarrow> Inl e
              | Inr resParams \<Rightarrow>
                  (case B of Inl e \<Rightarrow> Inl e
                   | Inr resReturns \<Rightarrow> Inr (FuncSpec_of resParams resReturns)))"
    unfolding A_def B_def by (rule funcSpec.simps)
  have a: "isl A \<longleftrightarrow>
             \<not> (case FuncType_Params decl of
                  None \<Rightarrow> True
                | Some params \<Rightarrow> \<forall>p\<in>set params. classifiable (Field_Type p))"
    using 4(1) by (simp add: A_def split: option.splits)
  show ?case
  proof (cases A)
    case (Inl e)
    then show ?thesis
      using a by (simp add: f classifiableSig.simps [of decl])
  next
    case (Inr resParams)
    have b: "isl B \<longleftrightarrow>
               \<not> (case FuncType_Results decl of
                    None \<Rightarrow> True
                  | Some results \<Rightarrow> \<forall>p\<in>set results. classifiable (Field_Type p))"
      using 4(2) [OF Inr [unfolded A_def]] by (simp add: B_def split: option.splits)
    show ?thesis
      using a b Inr by (cases B) (simp_all add: f classifiableSig.simps [of decl])
  qed
next
  case (5 sprint res)
  show ?case by simp
next
  case (6 sprint res param rest)
  show ?case
  proof (cases "formatType sprint (TypeSpec None (Field_Type param)) 0")
    case (Inl e)
    then show ?thesis using 6(1) by simp
  next
    case (Inr s)
    then show ?thesis using 6(1) 6(2) [OF Inr] by simp
  qed
qed

lemma funcSpec_classifiable:
  "classifiableSig ft \<longleftrightarrow> (\<exists>fs. funcSpec sprint ft = Inr fs)"
  using panics_iff_not_classifiable(3) [of sprint ft] by (cases "funcSpec sprint ft") simp_all

section \<open>The claims about the comparator\<close>

text \<open>
  C1. Reflexivity fails on the code. A tree whose only symbol is a function with the two
  unlabeled parameters \<^verbatim>\<open>string\<close> and \<^verbatim>\<open>int\<close> is compared with itself: both parameters
  have the Ident \<^verbatim>\<open>"."\<close>, the first target parameter binds that key to nil, and the lookup
  of the second target parameter finds the key and dereferences nil. Every run panics; no
  diagnostic list is returned.
\<close>

theorem reflexivity_panics_two_params:
  "compareSymbolList [funcFoo [typeParam ''string'', typeParam ''int'']]
     [funcFoo [typeParam ''string'', typeParam ''int'']] True = [Inl NilDereference]"
  by code_simp

text \<open>
  C2. The comparison is not total on the code. A function \<^verbatim>\<open>Foo\<close> with a \<^verbatim>\<open>funcSpec\<close>
  matched against a variable \<^verbatim>\<open>Foo\<close> without one panics at \<^verbatim>\<open>*b.FuncSpec\<close>; a target that
  holds the Ident \<^verbatim>\<open>.A\<close> twice panics at \<^verbatim>\<open>*origSymbol\<close> on the second entry.
\<close>

theorem compare_panics_nil_funcSpec_and_duplicate:
  "compareSymbolList [funcFoo []] [varSym ''Foo''] True = [Inl NilDereference]
   \<and> compareSymbolList [varSym ''A''] [varSym ''A'', varSym ''A''] True = [Inl NilDereference]"
  by code_simp




text \<open>
  C4. The parameters of a method are not compared: \<^verbatim>\<open>compareSymbol\<close> calls
  \<^verbatim>\<open>compareFuncSpec\<close> only for the kind \<^verbatim>\<open>func\<close>. Changing the parameter type of an
  interface method, or of a method with a receiver, from \<^verbatim>\<open>string\<close> to \<^verbatim>\<open>int\<close> returns
  the empty diagnostic list.
\<close>

theorem method_signature_change_undetected:
  "compareSymbolList [interfaceI ''string''] [interfaceI ''int''] True = [Inr []]
   \<and> compareSymbolList [methodM ''T'' ''string''] [methodM ''T'' ''int''] True = [Inr []]"
  by code_simp




text \<open>
  C6. The source is the single function \<^verbatim>\<open>Foo\<close> with one parameter of underlying type
  \<^verbatim>\<open>string\<close>, the target is the same with underlying type \<^verbatim>\<open>int\<close>. The comparison with
  \<^verbatim>\<open>cmpLabel = true\<close> has one run, which returns exactly one diagnostic; it contains
  \<^verbatim>\<open>func param mismatch:\<close>, \<^verbatim>\<open>string\<close> and \<^verbatim>\<open>int\<close>, and it is not a label diagnostic.
\<close>

theorem param_type_change_one_diagnostic:
  "compareSymbolList [funcFoo [typeParam ''string'']] [funcFoo [typeParam ''int'']] True =
     [Inr [''func param mismatch: type alias . and . have different underlying types: string and int'']]
   \<and> sublist ''func param mismatch:''
        ''func param mismatch: type alias . and . have different underlying types: string and int''
   \<and> sublist ''string''
        ''func param mismatch: type alias . and . have different underlying types: string and int''
   \<and> sublist ''int''
        ''func param mismatch: type alias . and . have different underlying types: string and int''
   \<and> \<not> sublist ''have different labels''
        ''func param mismatch: type alias . and . have different underlying types: string and int''"
  by code_simp




section \<open>The claims about the extractor\<close>

text \<open>
  C8. A type spec whose type is not an interface type, a struct type, an identifier or an
  array type makes \<^verbatim>\<open>formatType\<close> panic with \<^verbatim>\<open>unknown type\<close>, whatever the name and the
  base position. When such a spec is an exported type declaration of a file of the
  package, the extraction loop of \<^verbatim>\<open>main\<close> ends in a panic: it returns no symbol list.
  (A declaration that is not exported is skipped before its type is looked at.)
\<close>

theorem unsupported_shape_aborts:
  assumes "\<not> supportedShape (TypeSpec_Type spec)"
  shows "formatType sprint spec basePos = Inl UnknownType
    \<and> ((fileName, fl) \<in> set files \<and> ast_GenDecl specs \<in> set (File_Decls fl)
         \<and> ast_TypeSpec spec \<in> set specs \<and> TypeSpec_Name spec = Some n \<and> IsExported (Name n)
       \<longrightarrow> isl (main_exports IsExported sprint files))"
  using assms
    fileLoop_aborts [where IsExported = IsExported and n = n and fileName = fileName and fl = fl
      and files = files and specs = specs and spec = spec and sprint = sprint and exports = "[]"]
  by (simp add: formatType_unsupported main_exports_def)

text \<open>
  C8 at a concrete input: the file \<^verbatim>\<open>package p; type A int; type M map[string]int\<close>.
  The first declaration is classified, the second aborts the run.
\<close>

theorem unsupported_shape_aborts_witness:
  "\<not> supportedShape (TypeSpec_Type mapTypeSpec)
   \<and> formatType sprintNode mapTypeSpec 1 = Inl UnknownType
   \<and> isl (main_exports asciiExported sprintNode [(''p.go'', mapTypeFile)])"
proof -
  have h: "\<not> supportedShape (TypeSpec_Type mapTypeSpec)"
    by code_simp
  have f: "(''p.go'', mapTypeFile) \<in> set [(''p.go'', mapTypeFile)]"
    by simp
  have d: "ast_GenDecl [ast_TypeSpec mapTypeSpec] \<in> set (File_Decls mapTypeFile)"
    by (simp add: mapTypeFile_def)
  have s: "ast_TypeSpec mapTypeSpec \<in> set [ast_TypeSpec mapTypeSpec]"
    by simp
  have n: "TypeSpec_Name mapTypeSpec = Some (ast_IdentAt 29 ''M'')"
    by (simp add: mapTypeSpec_def)
  have e: "asciiExported (Name (ast_IdentAt 29 ''M''))"
    by code_simp
  show ?thesis
    using unsupported_shape_aborts [OF h, where sprint = sprintNode and basePos = 1
        and fileName = "''p.go''" and fl = mapTypeFile and files = "[(''p.go'', mapTypeFile)]"
        and specs = "[ast_TypeSpec mapTypeSpec]" and n = "ast_IdentAt 29 ''M''"
        and IsExported = asciiExported]
      h f d s n e
    by blast
qed

text \<open>
  C9, as stated, fails: the exported method \<^verbatim>\<open>func (r T) M(p *int)\<close> has a receiver, but
  its parameter is a pointer type, which \<^verbatim>\<open>formatType\<close> does not classify. The extractor
  panics and produces no symbol for the declaration.
\<close>

theorem method_pointer_param_counterexample:
  "exportFuncDecl asciiExported sprintNode ''p.go'' (File 1 [ast_FuncDecl pointerParamMethod]) []
     pointerParamMethod = Inl UnknownType
   \<and> main_exports asciiExported sprintNode [(''p.go'', File 1 [ast_FuncDecl pointerParamMethod])]
     = Inl UnknownType"
  by code_simp

text \<open>
  C9, amended. Take an exported function declaration with one receiver field. When the
  signature is classifiable (each parameter and result type is an identifier, an array
  type, a struct type whose embedded fields are identifiers, or an interface type whose
  embedded members are identifiers and whose methods have classifiable signatures), the
  extractor appends one symbol of kind \<^verbatim>\<open>method\<close> that carries the \<^verbatim>\<open>funcSpec\<close> of the
  signature, and whose receiver type is the name of the receiver's type when that type is an
  identifier, and \<^verbatim>\<open>unknown\<close> otherwise. When the signature is not classifiable, the
  extractor panics and appends nothing.
\<close>

theorem method_symbol_receiver:
  assumes "IsExported (FuncDecl_Name decl)" and "FuncDecl_Recv decl = Some [recv]"
  shows "(classifiableSig (FuncDecl_Type decl) \<longrightarrow>
            (\<exists>fs. funcSpec sprint (FuncDecl_Type decl) = Inr fs
               \<and> exportFuncDecl IsExported sprint fileName fl exports decl =
                   Inr (exports @ [Symbol (FuncDecl_Name decl) ''method'' [] (receiverName recv)
                                     fileName (FuncDecl_Pos decl - File_Package fl) []
                                     (Some fs)])))
       \<and> (\<not> classifiableSig (FuncDecl_Type decl) \<longrightarrow>
            isl (exportFuncDecl IsExported sprint fileName fl exports decl))"
proof (cases "funcSpec sprint (FuncDecl_Type decl)")
  case (Inl e)
  then have "\<not> classifiableSig (FuncDecl_Type decl)"
    by (simp add: funcSpec_classifiable [of _ sprint])
  then show ?thesis
    using assms Inl by (simp add: exportFuncDecl_def findReceiver_def)
next
  case (Inr fs)
  then have "classifiableSig (FuncDecl_Type decl)"
    by (simp add: funcSpec_classifiable [of _ sprint])
  then show ?thesis
    using assms Inr
    by (simp add: exportFuncDecl_def findReceiver_def receiverLoop_single
          del: receiverLoop.simps)
qed

text \<open>
  The amended C9 at concrete inputs. \<^verbatim>\<open>func (r *T) M(p int)\<close> gives the receiver type
  \<^verbatim>\<open>unknown\<close>, and \<^verbatim>\<open>func (r T) M(p int)\<close> gives \<^verbatim>\<open>T\<close>. The signatures of
  \<^verbatim>\<open>func (r T) M(p struct{ *X })\<close> and \<^verbatim>\<open>func (r T) M(p interface{ M(p *int) })\<close> are
  not classifiable, although the type of \<^verbatim>\<open>p\<close> is of a shape that \<^verbatim>\<open>formatType\<close> has a
  case for: the extractor panics, with a failed type assertion on the first and with
  \<^verbatim>\<open>unknown type\<close> on the second.
\<close>

theorem method_symbol_receiver_witness:
  "classifiableSig (FuncDecl_Type pointerReceiverMethod)
   \<and> exportFuncDecl asciiExported sprintNode ''p.go'' (File 1 []) [] pointerReceiverMethod =
     Inr [Symbol ''M'' ''method'' [] ''unknown'' ''p.go'' 11 []
            (Some (FuncSpec_of [typeParam ''int''] []))]
   \<and> classifiableSig (FuncDecl_Type namedReceiverMethod)
   \<and> exportFuncDecl asciiExported sprintNode ''p.go'' (File 1 []) [] namedReceiverMethod =
     Inr [Symbol ''M'' ''method'' [] ''T'' ''p.go'' 11 []
            (Some (FuncSpec_of [typeParam ''int''] []))]
   \<and> \<not> classifiableSig (FuncDecl_Type embeddedPointerParamMethod)
   \<and> isl (exportFuncDecl asciiExported sprintNode ''p.go'' (File 1 []) []
            embeddedPointerParamMethod)
   \<and> exportFuncDecl asciiExported sprintNode ''p.go'' (File 1 []) []
        embeddedPointerParamMethod = Inl TypeAssertion
   \<and> \<not> classifiableSig (FuncDecl_Type nestedPointerParamMethod)
   \<and> isl (exportFuncDecl asciiExported sprintNode ''p.go'' (File 1 []) []
            nestedPointerParamMethod)
   \<and> exportFuncDecl asciiExported sprintNode ''p.go'' (File 1 []) []
        nestedPointerParamMethod = Inl UnknownType"
proof -
  have e: "asciiExported (FuncDecl_Name pointerReceiverMethod)"
    "asciiExported (FuncDecl_Name namedReceiverMethod)"
    "asciiExported (FuncDecl_Name embeddedPointerParamMethod)"
    "asciiExported (FuncDecl_Name nestedPointerParamMethod)"
    by code_simp+
  have r: "FuncDecl_Recv pointerReceiverMethod = Some [ast_Field [''r''] (ast_StarExpr (ast_Ident ''T''))]"
    "FuncDecl_Recv namedReceiverMethod = Some [ast_Field [''r''] (ast_Ident ''T'')]"
    "FuncDecl_Recv embeddedPointerParamMethod = Some [ast_Field [''r''] (ast_Ident ''T'')]"
    "FuncDecl_Recv nestedPointerParamMethod = Some [ast_Field [''r''] (ast_Ident ''T'')]"
    by (simp_all add: pointerReceiverMethod_def namedReceiverMethod_def
          embeddedPointerParamMethod_def nestedPointerParamMethod_def)
  have c: "classifiableSig (FuncDecl_Type pointerReceiverMethod)"
    "classifiableSig (FuncDecl_Type namedReceiverMethod)"
    "\<not> classifiableSig (FuncDecl_Type embeddedPointerParamMethod)"
    "\<not> classifiableSig (FuncDecl_Type nestedPointerParamMethod)"
    by code_simp+
  have fs: "funcSpec sprintNode (FuncDecl_Type pointerReceiverMethod)
              = Inr (FuncSpec_of [typeParam ''int''] [])"
    "funcSpec sprintNode (FuncDecl_Type namedReceiverMethod)
              = Inr (FuncSpec_of [typeParam ''int''] [])"
    by code_simp+
  have v: "receiverName (ast_Field [''r''] (ast_StarExpr (ast_Ident ''T''))) = ''unknown''"
    "receiverName (ast_Field [''r''] (ast_Ident ''T'')) = ''T''"
    "FuncDecl_Name pointerReceiverMethod = ''M''" "FuncDecl_Name namedReceiverMethod = ''M''"
    "FuncDecl_Pos pointerReceiverMethod - File_Package (File 1 []) = 11"
    "FuncDecl_Pos namedReceiverMethod - File_Package (File 1 []) = 11"
    by (simp_all add: receiverName_def pointerReceiverMethod_def namedReceiverMethod_def)
  have p: "exportFuncDecl asciiExported sprintNode ''p.go'' (File 1 []) []
             embeddedPointerParamMethod = Inl TypeAssertion"
    "exportFuncDecl asciiExported sprintNode ''p.go'' (File 1 []) []
             nestedPointerParamMethod = Inl UnknownType"
    by code_simp+
  have ok: "exportFuncDecl asciiExported sprintNode ''p.go'' (File 1 []) [] pointerReceiverMethod =
       Inr [Symbol ''M'' ''method'' [] ''unknown'' ''p.go'' 11 []
              (Some (FuncSpec_of [typeParam ''int''] []))]"
    "exportFuncDecl asciiExported sprintNode ''p.go'' (File 1 []) [] namedReceiverMethod =
       Inr [Symbol ''M'' ''method'' [] ''T'' ''p.go'' 11 []
              (Some (FuncSpec_of [typeParam ''int''] []))]"
    "isl (exportFuncDecl asciiExported sprintNode ''p.go'' (File 1 []) []
            embeddedPointerParamMethod)"
    "isl (exportFuncDecl asciiExported sprintNode ''p.go'' (File 1 []) []
            nestedPointerParamMethod)"
    using method_symbol_receiver [where IsExported = asciiExported
        and decl = pointerReceiverMethod and sprint = sprintNode and fileName = "''p.go''"
        and fl = "File 1 []" and exports = "[]", OF e(1) r(1)]
      method_symbol_receiver [where IsExported = asciiExported
        and decl = namedReceiverMethod and sprint = sprintNode and fileName = "''p.go''"
        and fl = "File 1 []" and exports = "[]", OF e(2) r(2)]
      method_symbol_receiver [where IsExported = asciiExported
        and decl = embeddedPointerParamMethod and sprint = sprintNode and fileName = "''p.go''"
        and fl = "File 1 []" and exports = "[]", OF e(3) r(3)]
      method_symbol_receiver [where IsExported = asciiExported
        and decl = nestedPointerParamMethod and sprint = sprintNode and fileName = "''p.go''"
        and fl = "File 1 []" and exports = "[]", OF e(4) r(4)]
    by (simp_all only: fs v c sum.case append_Nil simp_thms sum.inject ex_simps)
  show ?thesis
    by (intro conjI) (rule c ok p)+
qed




end
